theory Spec2Isabelle
  imports Complex_Main
begin

unbundle bit_operations_syntax

section \<open>Messages and time\<close>

text \<open>
  \<open>ros::Time\<close> and \<open>ros::Duration\<close> are (seconds, nanoseconds) pairs; both are modelled
  as an integer count of nanoseconds, so that subtraction and comparison are exact.
  A default-constructed \<open>ros::Time\<close> is time zero. The wheel speeds of a message are
  C++ doubles, which the data model keeps finite: a message holds each as the real number
  it denotes. What the encoders monitor computes from them is computed in double
  arithmetic, modelled below.
  The member names of the source end in an underscore, which a constant name cannot; the
  underscore is dropped (\<open>failed_encoder_\<close> is \<open>failed_encoder\<close>).
\<close>

type_synonym Time = int
type_synonym Duration = int

definition Duration_ms :: "int \<Rightarrow> Duration" where
  "Duration_ms n = n * 1000000"

definition toSec :: "Duration \<Rightarrow> real" where
  "toSec d = real_of_int d / 1000000000"

record Header =
  stamp :: Time

record Drive = Header +
  front_left :: real
  front_right :: real
  rear_left :: real
  rear_right :: real

record RawStatus = Header +
  error :: nat

type_synonym VectorDrive = "real list"

section \<open>Double arithmetic\<close>

text \<open>
  An IEEE 754 binary64 value: a finite number, an infinity, or not a number. The sign of
  zero is not kept; no operation of the monitor tells the two zeros apart.
\<close>

datatype double = Finite real | PosInf | NegInf | NaN

text \<open>
  The binary exponent used to round \<open>x\<close>: the \<open>e\<close> in \<open>-1022 .. 1023\<close> with
  \<open>2^e \<le> |x| < 2^(e+1)\<close>, the least one below that range (subnormal numbers and zero),
  the greatest one above it. The search runs upwards from \<open>-1022\<close>.
\<close>

fun exponent_from :: "nat \<Rightarrow> int \<Rightarrow> real \<Rightarrow> int" where
  "exponent_from 0 e a = e"
| "exponent_from (Suc n) e a = (if a < 2 powi (e + 1) then e else exponent_from n (e + 1) a)"

definition exponent :: "real \<Rightarrow> int" where
  "exponent x = exponent_from 2045 (- 1022) \<bar>x\<bar>"

text \<open>Rounding to the nearest integer, a tie to the even one.\<close>

definition round_even :: "real \<Rightarrow> int" where
  "round_even r =
     (let f = \<lfloor>r\<rfloor>; d = r - of_int f
      in if d < 1/2 then f else if d > 1/2 then f + 1 else if even f then f else f + 1)"

text \<open>
  The result of an operation whose exact value is \<open>x\<close>, in the default rounding mode
  (to nearest, ties to even): \<open>x\<close> is rounded to a multiple of the unit in the last of the
  53 significant bits, and a result of magnitude \<open>2^1024\<close> or more is an infinity.
\<close>

definition round_double :: "real \<Rightarrow> double" where
  "round_double x =
     (let u = 2 powi (exponent x - 52);
          y = of_int (round_even (x / u)) * u
      in if y \<ge> 2 powi 1024 then PosInf
         else if y \<le> - (2 powi 1024) then NegInf
         else Finite y)"

fun dsub :: "double \<Rightarrow> double \<Rightarrow> double" where
  "dsub (Finite a) (Finite b) = round_double (a - b)"
| "dsub NaN b = NaN"
| "dsub a NaN = NaN"
| "dsub PosInf PosInf = NaN"
| "dsub NegInf NegInf = NaN"
| "dsub PosInf b = PosInf"
| "dsub NegInf b = NegInf"
| "dsub a PosInf = NegInf"
| "dsub a NegInf = PosInf"

fun dabs :: "double \<Rightarrow> double" where
  "dabs (Finite a) = Finite \<bar>a\<bar>"
| "dabs PosInf = PosInf"
| "dabs NegInf = PosInf"
| "dabs NaN = NaN"

text \<open>The comparisons \<open>a > b\<close> and \<open>a < b\<close>: false when either side is not a number.\<close>

fun dgreater :: "double \<Rightarrow> double \<Rightarrow> bool" where
  "dgreater (Finite a) (Finite b) = (a > b)"
| "dgreater NaN b = False"
| "dgreater a NaN = False"
| "dgreater NegInf b = False"
| "dgreater a PosInf = False"
| "dgreater PosInf b = True"
| "dgreater a NegInf = True"

definition dless :: "double \<Rightarrow> double \<Rightarrow> bool" where
  "dless a b = dgreater b a"

text \<open>
  The literal \<open>0.01\<close> of the source is the double nearest to one hundredth,
  \<open>0x1.47ae147ae147bp-7\<close>, a little above it.
\<close>

definition double_0_01 :: real where
  "double_0_01 = 5764607523034235 / 576460752303423488"

text \<open>
  Modelled from the spec: \<open>grizzly_msgs::vectorFromDriveMsg\<close> (header
  \<open>grizzly_msgs/eigen.h\<close>) is not among the sources. The wheel order is the fixed order
  FrontLeft, FrontRight, RearLeft, RearRight of the data model.
\<close>

definition vectorFromDriveMsg :: "Drive \<Rightarrow> VectorDrive" where
  "vectorFromDriveMsg m = [front_left m, front_right m, rear_left m, rear_right m]"

text \<open>
  Eigen's \<open>maxCoeff(&index)\<close> visits the coefficients in order, starting from the first,
  and replaces the running maximum only by a coefficient that compares greater: the index
  returned is the first one that holds the maximum. A \<open>VectorDrive\<close> has four
  coefficients, so the empty case is never reached.
\<close>

fun maxCoeff_loop :: "double \<Rightarrow> nat \<Rightarrow> nat \<Rightarrow> double list \<Rightarrow> double \<times> nat" where
  "maxCoeff_loop res idx i [] = (res, idx)"
| "maxCoeff_loop res idx i (x # xs) =
     (if dgreater x res then maxCoeff_loop x i (Suc i) xs
      else maxCoeff_loop res idx (Suc i) xs)"

fun maxCoeff :: "double list \<Rightarrow> double \<times> nat" where
  "maxCoeff [] = (Finite 0, 0)"
| "maxCoeff (x # xs) = maxCoeff_loop x 0 1 xs"

section \<open>EncodersMonitor (encoders\_monitor.cpp)\<close>

record EncodersMonitor =
  encoders_timeout :: Duration
  encoder_speed_error_diff_threshold :: real
  encoder_fault_time_to_failure :: Duration
  failed_encoder :: int
  last_received_encoders :: "Drive option"
  last_received_drive :: "Drive option"
  time_of_last_nonsuspect_encoders :: Time

text \<open>
  The constructor. The two private parameters \<open>~encoders_timeout\<close> and
  \<open>~encoder_fault_time_to_failure\<close> are read from the parameter server with the
  initialiser's value as default; here they are optional arguments.
\<close>

definition EncodersMonitor_new :: "Duration option \<Rightarrow> Duration option \<Rightarrow> EncodersMonitor" where
  "EncodersMonitor_new timeout_param time_to_failure_param =
     \<lparr> encoders_timeout = (case timeout_param of None \<Rightarrow> Duration_ms 110 | Some d \<Rightarrow> d),
       encoder_speed_error_diff_threshold = 0.5,
       encoder_fault_time_to_failure =
         (case time_to_failure_param of None \<Rightarrow> Duration_ms 500 | Some d \<Rightarrow> d),
       failed_encoder = - 1,
       last_received_encoders = None,
       last_received_drive = None,
       time_of_last_nonsuspect_encoders = 0 \<rparr>"

text \<open>
  \<open>(wheelSpeedMeasured - wheelSpeedCommanded).cwiseAbs()\<close>: each difference is rounded,
  and may overflow to an infinity; the absolute value is exact.
\<close>

definition wheelSpeedError :: "Drive \<Rightarrow> Drive \<Rightarrow> double list" where
  "wheelSpeedError enc drv =
     map2 (\<lambda>m c. dabs (dsub (Finite m) (Finite c)))
       (vectorFromDriveMsg enc) (vectorFromDriveMsg drv)"

text \<open>
  \<open>detectFailedEncoderCandidate\<close> reads the two stored messages, which its only caller
  has checked to be present; they are arguments here. The result pairs the returned
  flag with the index written through the \<open>candidate\<close> pointer. The threshold is the
  member \<open>encoder_speed_error_diff_threshold\<close>, a finite double.
\<close>

definition detectFailedEncoderCandidate :: "real \<Rightarrow> Drive \<Rightarrow> Drive \<Rightarrow> bool \<times> nat" where
  "detectFailedEncoderCandidate threshold enc drv =
     (let wheelSpeedMeasured = vectorFromDriveMsg enc;
          err = wheelSpeedError enc drv;
          (max_error, candidate) = maxCoeff err;
          err0 = err[candidate := Finite 0];
          max_error_diff = dsub max_error (fst (maxCoeff err0))
      in if dgreater (Finite (wheelSpeedMeasured ! candidate)) (Finite double_0_01)
         then (False, candidate)
         else if dless max_error_diff (Finite threshold) then (False, candidate)
         else (True, candidate))"

definition detectFailedEncoder :: "EncodersMonitor \<Rightarrow> bool \<times> EncodersMonitor" where
  "detectFailedEncoder em =
     (case last_received_encoders em of
        None \<Rightarrow> (False, em)
      | Some enc \<Rightarrow>
         (case last_received_drive em of
            None \<Rightarrow> (False, em)
          | Some drv \<Rightarrow>
             (let (found, candidate_failed_encoder) =
                    detectFailedEncoderCandidate (encoder_speed_error_diff_threshold em) enc drv
              in if found then
                   (if stamp enc - time_of_last_nonsuspect_encoders em
                         > encoder_fault_time_to_failure em
                    then (True, em\<lparr>failed_encoder := int candidate_failed_encoder\<rparr>)
                    else (False, em))
                 else (False, em\<lparr>time_of_last_nonsuspect_encoders := stamp enc\<rparr>))))"

text \<open>\<open>ok\<close> reads the clock through \<open>age\<close>; the reading is the argument \<open>now\<close>.\<close>

definition age :: "Time \<Rightarrow> 'a Header_scheme \<Rightarrow> Duration" where
  "age now msg = now - stamp msg"

definition ok :: "Time \<Rightarrow> EncodersMonitor \<Rightarrow> bool \<times> EncodersMonitor" where
  "ok now em =
     (case last_received_encoders em of
        None \<Rightarrow> (False, em)
      | Some enc \<Rightarrow>
         if age now enc > encoders_timeout em then (False, em)
         else (case last_received_drive em of
                 None \<Rightarrow> (True, em)
               | Some drv \<Rightarrow>
                  if age now drv > encoders_timeout em then (True, em)
                  else (let (failed, em') = detectFailedEncoder em
                        in if failed then (False, em') else (True, em'))))"

text \<open>
  The failed wheel as the diagnostic reads it: \<open>failed_encoder_ >= 0\<close> is a detected
  failure of that wheel, the initial \<open>-1\<close> is none.
\<close>

definition failed_wheel :: "EncodersMonitor \<Rightarrow> nat option" where
  "failed_wheel em = (if failed_encoder em \<ge> 0 then Some (nat (failed_encoder em)) else None)"

definition encodersCallback :: "Drive \<Rightarrow> EncodersMonitor \<Rightarrow> EncodersMonitor" where
  "encodersCallback encoders em = em\<lparr>last_received_encoders := Some encoders\<rparr>"

definition driveCallback_em :: "Drive \<Rightarrow> EncodersMonitor \<Rightarrow> EncodersMonitor" where
  "driveCallback_em drive em = em\<lparr>last_received_drive := Some drive\<rparr>"

text \<open>
  Modelled from the spec: \<open>grizzly_msgs\<close> is not among the sources. What the two files
  use of it and cannot be read off them is kept as a parameter: the two masks of the
  \<open>RawStatus\<close> error bit field (precharge active, estop latched), the ambience pattern
  \<open>PATTERN_DFLASH\<close>, and the predicate \<open>isStationary\<close> on a drive message.
\<close>

record grizzly_msgs =
  ERROR_BRK_DET :: nat
  ERROR_ESTOP_RESET :: nat
  PATTERN_DFLASH :: nat
  isStationary :: "Drive \<Rightarrow> bool"

definition moving :: "grizzly_msgs \<Rightarrow> EncodersMonitor \<Rightarrow> bool" where
  "moving G em =
     (case last_received_encoders em of
        None \<Rightarrow> False
      | Some enc \<Rightarrow> \<not> isStationary G enc)"

text \<open>
  The callbacks of the monitor arrive in any order. An event is one arrival or one call of
  a public member that changes the monitor (\<open>detectFailedEncoder\<close>, called by the fault
  check, and \<open>ok\<close>); \<open>em_run\<close> dispatches a list of them, and \<open>encoder_stamps\<close> lists
  the time stamps of the encoder messages among them.
\<close>

datatype em_event =
    EncodersMsg Drive
  | DriveMsg Drive
  | DetectCall
  | OkCall Time

fun em_step :: "em_event \<Rightarrow> EncodersMonitor \<Rightarrow> EncodersMonitor" where
  "em_step (EncodersMsg m) em = encodersCallback m em"
| "em_step (DriveMsg m) em = driveCallback_em m em"
| "em_step DetectCall em = snd (detectFailedEncoder em)"
| "em_step (OkCall now) em = snd (ok now em)"

fun em_run :: "em_event list \<Rightarrow> EncodersMonitor \<Rightarrow> EncodersMonitor" where
  "em_run [] em = em"
| "em_run (ev # evs) em = em_run evs (em_step ev em)"



section \<open>DriveChangeLimiter (change\_limiter.h)\<close>

datatype DriveField = FrontLeft | FrontRight | RearLeft | RearRight

fun get_field :: "DriveField \<Rightarrow> Drive \<Rightarrow> real" where
  "get_field FrontLeft m = front_left m"
| "get_field FrontRight m = front_right m"
| "get_field RearLeft m = rear_left m"
| "get_field RearRight m = rear_right m"

fun set_field :: "DriveField \<Rightarrow> real \<Rightarrow> Drive \<Rightarrow> Drive" where
  "set_field FrontLeft v m = m\<lparr>front_left := v\<rparr>"
| "set_field FrontRight v m = m\<lparr>front_right := v\<rparr>"
| "set_field RearLeft v m = m\<lparr>rear_left := v\<rparr>"
| "set_field RearRight v m = m\<lparr>rear_right := v\<rparr>"

record DriveChangeLimiter =
  max_rate :: real
  field_ptr :: DriveField
  previous_output :: "real option"
  previous_timestamp :: "Time option"

definition DriveChangeLimiter_new :: "real \<Rightarrow> DriveField \<Rightarrow> DriveChangeLimiter" where
  "DriveChangeLimiter_new rate f =
     \<lparr> max_rate = rate, field_ptr = f, previous_output = None, previous_timestamp = None \<rparr>"

definition clamp :: "real \<Rightarrow> real \<Rightarrow> real \<Rightarrow> real" where
  "clamp v lo hi = (if v < lo then lo else if hi < v then hi else v)"

text \<open>
  Modelled from the spec: the class \<open>DriveChangeLimiter\<close> is declared in
  \<open>grizzly_motion/change_limiter.h\<close>, which is not among the sources. The limiter is the
  RateLimiter of the component design: the first call passes the command through and
  stores it; a later call clamps the command to the previous output plus or minus
  \<open>max_rate * dt\<close> and stores the output and the time.
\<close>

definition RateLimiter_apply ::
  "real \<Rightarrow> Time \<Rightarrow> DriveChangeLimiter \<Rightarrow> real \<times> DriveChangeLimiter" where
  "RateLimiter_apply commanded now limiter =
     (case (previous_output limiter, previous_timestamp limiter) of
        (Some prev, Some prev_t) \<Rightarrow>
          (let dt = toSec (now - prev_t);
               max_delta = max_rate limiter * dt;
               output = clamp commanded (prev - max_delta) (prev + max_delta)
           in (output, limiter\<lparr>previous_output := Some output, previous_timestamp := Some now\<rparr>))
      | _ \<Rightarrow>
          (commanded, limiter\<lparr>previous_output := Some commanded, previous_timestamp := Some now\<rparr>))"

text \<open>
  Modelled from the spec: \<open>apply(msg_in, msg_out)\<close> of the same absent header, as the
  drive pass-through calls it: the limiter reads its own wheel of the commanded message,
  at the message's time stamp, and writes its output to the same wheel of the outgoing
  message.
\<close>

definition apply_limiter ::
  "DriveChangeLimiter \<Rightarrow> Drive \<Rightarrow> Drive \<Rightarrow> Drive \<times> DriveChangeLimiter" where
  "apply_limiter limiter msg_in msg_out =
     (let (output, limiter') =
            RateLimiter_apply (get_field (field_ptr limiter) msg_in) (stamp msg_in) limiter
      in (set_field (field_ptr limiter) output msg_out, limiter'))"


section \<open>MotionSafety (motion\_safety\_node.cpp)\<close>

text \<open>
  The class declarations (\<open>motion_safety.h\<close>, \<open>encoders_monitor.h\<close>) are not among the
  sources; the states and the members are those the two source files use.
\<close>

datatype MotionStates = Stopped | Starting | Moving | PendingStopped | Fault

record Ambience =
  beacon :: nat
  headlight :: nat
  taillight :: nat
  beep :: nat

text \<open>
  The three publishers are logs of what was published, oldest first. The health of the
  motor drivers (\<open>MotorsMonitor::ok\<close>, an external collaborator) is an input of the
  watchdog cycle.
\<close>

record MotionSafety =
  state :: MotionStates
  fault_reason :: string
  width :: real
  radius :: real
  max_accel :: real
  starting_duration :: Duration
  last_commanded_movement_time :: Time
  transition_to_moving_time :: Time
  last_non_precharge_time :: Time
  last_mcu_status :: "RawStatus option"
  encoders_monitor :: EncodersMonitor
  accel_limiters :: "DriveChangeLimiter list"
  pub_estop :: "bool list"
  pub_ambience :: "Ambience list"
  pub_safe_drive :: "Drive list"

text \<open>
  The constructor. The three parameters are read from the parameter server and are not
  checked. The rate \<open>max_accel_ / radius_\<close> is the real quotient here; for a radius of
  zero the double quotient is an infinity or not a number, which this does not model, and
  the properties of the limiters below take a positive radius.
\<close>

definition MotionSafety_new ::
  "real \<Rightarrow> real \<Rightarrow> real \<Rightarrow> Duration option \<Rightarrow> Duration option \<Rightarrow> MotionSafety" where
  "MotionSafety_new vehicle_width wheel_radius max_acceleration timeout_param time_to_failure_param =
     \<lparr> state = Stopped,
       fault_reason = [],
       width = vehicle_width,
       radius = wheel_radius,
       max_accel = max_acceleration,
       starting_duration = Duration_ms 2000,
       last_commanded_movement_time = 0,
       transition_to_moving_time = 0,
       last_non_precharge_time = 0,
       last_mcu_status = None,
       encoders_monitor = EncodersMonitor_new timeout_param time_to_failure_param,
       accel_limiters =
         [DriveChangeLimiter_new (max_acceleration / wheel_radius) FrontLeft,
          DriveChangeLimiter_new (max_acceleration / wheel_radius) FrontRight,
          DriveChangeLimiter_new (max_acceleration / wheel_radius) RearLeft,
          DriveChangeLimiter_new (max_acceleration / wheel_radius) RearRight],
       pub_estop = [],
       pub_ambience = [],
       pub_safe_drive = [] \<rparr>"

definition setFault :: "string \<Rightarrow> MotionSafety \<Rightarrow> MotionSafety" where
  "setFault reason ms =
     ms\<lparr>pub_estop := pub_estop ms @ [True], state := Fault, fault_reason := reason\<rparr>"

definition checkFaults :: "grizzly_msgs \<Rightarrow> MotionSafety \<Rightarrow> MotionSafety" where
  "checkFaults G ms =
     (let ms1 =
            (case last_mcu_status ms of
               None \<Rightarrow> ms
             | Some status \<Rightarrow>
                (let ms' = (if error status AND ERROR_BRK_DET G = 0
                            then ms\<lparr>last_non_precharge_time := stamp status\<rparr> else ms)
                 in if stamp status - last_non_precharge_time ms' > Duration_ms 4000
                    then setFault ''Precharge persisted for more than four seconds.'' ms'
                    else ms'));
          (failed, em) = detectFailedEncoder (encoders_monitor ms1);
          ms2 = ms1\<lparr>encoders_monitor := em\<rparr>
      in if failed then setFault ''Encoder failure detected.'' ms2 else ms2)"

definition isEstopped :: "grizzly_msgs \<Rightarrow> MotionSafety \<Rightarrow> bool" where
  "isEstopped G ms =
     (case last_mcu_status ms of
        None \<Rightarrow> False
      | Some status \<Rightarrow> error status AND ERROR_ESTOP_RESET G \<noteq> 0)"

text \<open>
  \<open>watchdogCallback\<close> is a sequence of five \<open>if (state_ == ...)\<close> blocks, not an
  else-chain: a block sees the state its predecessors left. Each block is a function of
  its own; the clock reading of the cycle is the argument \<open>now\<close>.
\<close>

definition watchdog_Stopped :: "grizzly_msgs \<Rightarrow> Time \<Rightarrow> MotionSafety \<Rightarrow> MotionSafety" where
  "watchdog_Stopped G now ms =
     (if state ms = Stopped then
        (if now - last_commanded_movement_time ms < Duration_ms 100 \<and> \<not> isEstopped G ms
         then ms\<lparr>state := Starting, transition_to_moving_time := now + starting_duration ms\<rparr>
         else ms)
      else ms)"

definition watchdog_Starting ::
  "grizzly_msgs \<Rightarrow> Time \<Rightarrow> bool \<Rightarrow> bool \<Rightarrow> Ambience \<Rightarrow> MotionSafety \<Rightarrow> Ambience \<times> MotionSafety" where
  "watchdog_Starting G now encoders_ok motor_controllers_ok ambience ms =
     (if state ms = Starting then
        (let ambience' = \<lparr> beacon = PATTERN_DFLASH G, headlight = PATTERN_DFLASH G,
                           taillight = PATTERN_DFLASH G, beep = PATTERN_DFLASH G \<rparr>;
             ms1 = (if now > transition_to_moving_time ms then ms\<lparr>state := Moving\<rparr> else ms);
             ms2 = (if now - last_commanded_movement_time ms1 > Duration_ms 100
                    then ms1\<lparr>state := Stopped\<rparr> else ms1);
             ms3 = (if \<not> encoders_ok \<or> \<not> motor_controllers_ok \<or> isEstopped G ms2
                    then ms2\<lparr>state := PendingStopped\<rparr> else ms2)
         in (ambience', ms3))
      else (ambience, ms))"

definition watchdog_Moving :: "Time \<Rightarrow> bool \<Rightarrow> bool \<Rightarrow> MotionSafety \<Rightarrow> MotionSafety" where
  "watchdog_Moving now encoders_ok motor_controllers_ok ms =
     (if state ms = Moving then
        (let ms1 = (if \<not> encoders_ok \<or> \<not> motor_controllers_ok
                    then ms\<lparr>state := PendingStopped\<rparr> else ms)
         in if now - last_commanded_movement_time ms1 > Duration_ms 3000
            then ms1\<lparr>state := Stopped\<rparr> else ms1)
      else ms)"

definition watchdog_PendingStopped ::
  "grizzly_msgs \<Rightarrow> Time \<Rightarrow> bool \<Rightarrow> MotionSafety \<Rightarrow> bool \<times> MotionSafety" where
  "watchdog_PendingStopped G now estop ms =
     (if state ms = PendingStopped then
        (if \<not> moving G (encoders_monitor ms)
            \<and> now - last_commanded_movement_time ms > Duration_ms 1000
            \<and> isEstopped G ms
         then (True, ms\<lparr>state := Stopped\<rparr>)
         else (True, ms))
      else (estop, ms))"

definition watchdog_Fault :: "bool \<Rightarrow> MotionSafety \<Rightarrow> bool" where
  "watchdog_Fault estop ms = (if state ms = Fault then True else estop)"

text \<open>
  The cycle up to and including the \<open>Moving\<close> block: the fault check, the two health
  flags, and the first three blocks. The result is the ambience message so far and the
  node as the \<open>PendingStopped\<close> block finds it.
\<close>

definition watchdog_upto_Moving ::
  "grizzly_msgs \<Rightarrow> Time \<Rightarrow> bool \<Rightarrow> MotionSafety \<Rightarrow> Ambience \<times> MotionSafety" where
  "watchdog_upto_Moving G now motor_controllers_ok ms =
     (let ambience = \<lparr> beacon = 0, headlight = 0, taillight = 0, beep = 0 \<rparr>;
          ms0 = checkFaults G ms;
          (encoders_ok, em) = ok now (encoders_monitor ms0);
          ms1 = ms0\<lparr>encoders_monitor := em\<rparr>;
          ms2 = watchdog_Stopped G now ms1;
          (ambience', ms3) = watchdog_Starting G now encoders_ok motor_controllers_ok ambience ms2
      in (ambience', watchdog_Moving now encoders_ok motor_controllers_ok ms3))"

definition watchdogCallback ::
  "grizzly_msgs \<Rightarrow> Time \<Rightarrow> bool \<Rightarrow> MotionSafety \<Rightarrow> MotionSafety" where
  "watchdogCallback G now motor_controllers_ok ms =
     (let (ambience, ms4) = watchdog_upto_Moving G now motor_controllers_ok ms;
          (estop, ms5) = watchdog_PendingStopped G now False ms4;
          estop' = watchdog_Fault estop ms5
      in ms5\<lparr>pub_ambience := pub_ambience ms5 @ [ambience],
               pub_estop := pub_estop ms5 @ [estop']\<rparr>)"

definition estopCallback :: "bool \<Rightarrow> MotionSafety \<Rightarrow> MotionSafety" where
  "estopCallback data ms =
     (if data then
        (let ms' = ms\<lparr>pub_estop := pub_estop ms @ [data]\<rparr>
         in if state ms' \<noteq> Fault then ms'\<lparr>state := PendingStopped\<rparr> else ms')
      else ms)"

text \<open>The loop \<open>for (wheel = 0; wheel < 4; wheel++)\<close> over the limiters.\<close>

fun apply_limiters ::
  "DriveChangeLimiter list \<Rightarrow> Drive \<Rightarrow> Drive \<Rightarrow> Drive \<times> DriveChangeLimiter list" where
  "apply_limiters [] msg_in msg_out = (msg_out, [])"
| "apply_limiters (limiter # lims) msg_in msg_out =
     (let (msg_out1, limiter') = apply_limiter limiter msg_in msg_out;
          (msg_out2, lims') = apply_limiters lims msg_in msg_out1
      in (msg_out2, limiter' # lims'))"

text \<open>
  A default-constructed \<open>Drive\<close> message has all four wheel speeds zero; \<open>drive_safe\<close>
  takes the header of the command.
\<close>

definition driveCallback :: "grizzly_msgs \<Rightarrow> Drive \<Rightarrow> MotionSafety \<Rightarrow> MotionSafety" where
  "driveCallback G drive_commanded ms =
     (let ms1 = (if \<not> isStationary G drive_commanded
                 then ms\<lparr>last_commanded_movement_time := stamp drive_commanded\<rparr> else ms);
          drive_safe = \<lparr> stamp = stamp drive_commanded, front_left = 0, front_right = 0,
                         rear_left = 0, rear_right = 0 \<rparr>;
          (drive_safe', lims) =
            (if state ms1 = Moving
             then apply_limiters (accel_limiters ms1) drive_commanded drive_safe
             else (drive_safe, accel_limiters ms1))
      in ms1\<lparr>accel_limiters := lims, pub_safe_drive := pub_safe_drive ms1 @ [drive_safe']\<rparr>)"

definition mcuStatusCallback :: "RawStatus \<Rightarrow> MotionSafety \<Rightarrow> MotionSafety" where
  "mcuStatusCallback status ms = ms\<lparr>last_mcu_status := Some status\<rparr>"

section \<open>Example inputs\<close>

text \<open>
  An instance of the absent declarations, for evaluation: two distinct bits for the two
  masks, and a drive message taken as stationary when all four wheel speeds are zero.
\<close>

definition G_ex :: grizzly_msgs where
  "G_ex = \<lparr> ERROR_BRK_DET = 1, ERROR_ESTOP_RESET = 2, PATTERN_DFLASH = 1,
            isStationary = (\<lambda>m. vectorFromDriveMsg m = [0, 0, 0, 0]) \<rparr>"

definition drive_msg :: "int \<Rightarrow> real \<Rightarrow> real \<Rightarrow> real \<Rightarrow> real \<Rightarrow> Drive" where
  "drive_msg ms_stamp fl fr rl rr =
     \<lparr> stamp = Duration_ms ms_stamp, front_left = fl, front_right = fr,
       rear_left = rl, rear_right = rr \<rparr>"

definition status_msg :: "int \<Rightarrow> nat \<Rightarrow> RawStatus" where
  "status_msg ms_stamp e = \<lparr> stamp = Duration_ms ms_stamp, error = e \<rparr>"



text \<open>
  A node in a given state: the last non-stationary command is stamped 10.0 s, the last
  controller status is stamped 10.4 s with the estop bit set and the precharge bit clear,
  and the encoders monitor has received nothing.
\<close>

definition ms_ex :: "MotionStates \<Rightarrow> MotionSafety" where
  "ms_ex st =
     (MotionSafety_new 1 (1/4) 1 None None)
       \<lparr> state := st,
         last_commanded_movement_time := Duration_ms 10000,
         last_non_precharge_time := Duration_ms 10400,
         last_mcu_status := Some (status_msg 10400 2) \<rparr>"

text \<open>
  A new node whose encoders monitor has received feedback with wheel 0 at rest and a
  command of speed 1 on all wheels, both stamped 5.0 s, and no controller status yet.
\<close>

definition ms_candidate_ex :: MotionSafety where
  "ms_candidate_ex =
     (MotionSafety_new 1 (1/4) 1 None None)
       \<lparr> encoders_monitor :=
           em_run [EncodersMsg (drive_msg 5000 0 1 1 1), DriveMsg (drive_msg 5000 1 1 1 1)]
             (EncodersMonitor_new None None) \<rparr>"

section \<open>Properties of the double arithmetic\<close>

subsection \<open>Rounding at given values\<close>

lemma exponent_from_eq:
  assumes "e0 \<le> e" and "nat (e - e0) \<le> n" and "e0 < e \<longrightarrow> 2 powi e \<le> a"
    and "a < 2 powi (e + 1)"
  shows "exponent_from n e0 a = e"
  using assms
proof (induction n arbitrary: e0)
  case 0
  then show ?case by simp
next
  case (Suc n)
  show ?case
  proof (cases "e0 = e")
    case True
    with Suc.prems show ?thesis by simp
  next
    case False
    with Suc.prems have lt: "e0 < e" by simp
    then have "(2::real) powi (e0 + 1) \<le> 2 powi e"
      by (intro power_int_increasing) simp_all
    with Suc.prems lt have "\<not> a < 2 powi (e0 + 1)" by simp
    moreover have "exponent_from n (e0 + 1) a = e"
      by (rule Suc.IH) (use Suc.prems lt in simp_all)
    ultimately show ?thesis by simp
  qed
qed

lemma exponent_from_top:
  assumes "2 powi (e0 + int n) \<le> a"
  shows "exponent_from n e0 a = e0 + int n"
  using assms
proof (induction n arbitrary: e0)
  case 0
  then show ?case by simp
next
  case (Suc n)
  have "(2::real) powi (e0 + 1) \<le> 2 powi (e0 + int (Suc n))"
    by (intro power_int_increasing) simp_all
  with Suc.prems have "\<not> a < 2 powi (e0 + 1)" by simp
  moreover have "exponent_from n (e0 + 1) a = e0 + 1 + int n"
    by (rule Suc.IH) (use Suc.prems in \<open>simp add: add.assoc\<close>)
  ultimately show ?case by simp
qed

lemma exponent_eq:
  assumes "- 1022 \<le> e" and "e \<le> 1023" and "2 powi e \<le> \<bar>x\<bar>" and "\<bar>x\<bar> < 2 powi (e + 1)"
  shows "exponent x = e"
  unfolding exponent_def
  by (rule exponent_from_eq) (use assms in simp_all)

lemma exponent_subnormal:
  assumes "\<bar>x\<bar> < 2 powi (- 1021)"
  shows "exponent x = - 1022"
  unfolding exponent_def
  by (rule exponent_from_eq) (use assms in simp_all)

lemma exponent_huge:
  assumes "2 powi 1023 \<le> \<bar>x\<bar>"
  shows "exponent x = 1023"
proof -
  have "exponent_from 2045 (- 1022) \<bar>x\<bar> = - 1022 + int 2045"
    by (rule exponent_from_top) (use assms in simp)
  then show ?thesis by (simp add: exponent_def)
qed

lemma round_double_0 [simp]: "round_double 0 = Finite 0"
proof -
  have "exponent 0 = - 1022" by (rule exponent_subnormal) simp
  then show ?thesis by (simp add: round_double_def round_even_def)
qed

lemma round_double_1 [simp]: "round_double 1 = Finite 1"
proof -
  have "exponent 1 = 0" by (rule exponent_eq) simp_all
  then show ?thesis by (simp add: round_double_def round_even_def power_int_minus)
qed

lemma round_double_m1 [simp]: "round_double (- 1) = Finite (- 1)"
proof -
  have "exponent (- 1) = 0" by (rule exponent_eq) simp_all
  then show ?thesis by (simp add: round_double_def round_even_def power_int_minus)
qed

lemma round_double_half [simp]: "round_double (1/2) = Finite (1/2)"
proof -
  have "exponent (1/2) = - 1" by (rule exponent_eq) (simp_all add: power_int_minus)
  then show ?thesis by (simp add: round_double_def round_even_def power_int_minus)
qed

lemma round_double_0_01: "round_double (1/100) = Finite double_0_01"
proof -
  have "exponent (1/100) = - 7" by (rule exponent_eq) (simp_all add: power_int_minus)
  then show ?thesis
    by (simp add: round_double_def round_even_def power_int_minus double_0_01_def)
qed


lemma round_double_overflow: "round_double (- (2 ^ 1023) - 2 ^ 1023) = NegInf"
proof -
  have "exponent (- (2 ^ 1023) - 2 ^ 1023) = 1023" by (rule exponent_huge) simp
  then show ?thesis by (simp add: round_double_def round_even_def power_int_minus)
qed

lemma round_double_not_NaN [simp]: "round_double x \<noteq> NaN"
  by (simp add: round_double_def Let_def)

subsection \<open>The order of the comparisons\<close>

lemma dgreater_irrefl [simp]: "\<not> dgreater a a"
  by (cases a) simp_all






section \<open>Properties of the encoder failure detector\<close>

subsection \<open>The maximum and its index\<close>




lemma wheelSpeedError_eq:
  "wheelSpeedError enc drv =
     [dabs (dsub (Finite (front_left enc)) (Finite (front_left drv))),
      dabs (dsub (Finite (front_right enc)) (Finite (front_right drv))),
      dabs (dsub (Finite (rear_left enc)) (Finite (rear_left drv))),
      dabs (dsub (Finite (rear_right enc)) (Finite (rear_right drv)))]"
  by (simp add: wheelSpeedError_def vectorFromDriveMsg_def)




subsection \<open>The failed encoder candidate\<close>



lemmas double_eval =
  detectFailedEncoderCandidate_def wheelSpeedError_def vectorFromDriveMsg_def
  double_0_01_def dless_def round_double_0 round_double_1 round_double_m1 round_double_half




text \<open>
  Two errors that overflow: their difference is not a number, no comparison with it
  holds, and the function returns true.
\<close>

lemma detectFailedEncoderCandidate_overflow:
  "detectFailedEncoderCandidate (1/2)
       (drive_msg 1000 (- (2 ^ 1023)) (- (2 ^ 1023)) 0 0)
       (drive_msg 1000 (2 ^ 1023) (2 ^ 1023) 0 0) = (True, 0)
   \<and> dsub PosInf PosInf = NaN"
proof -
  have d: "dsub (Finite (- (2 ^ 1023))) (Finite (2 ^ 1023)) = NegInf"
    by (simp only: dsub.simps round_double_overflow)
  have e: "wheelSpeedError (drive_msg 1000 (- (2 ^ 1023)) (- (2 ^ 1023)) 0 0)
             (drive_msg 1000 (2 ^ 1023) (2 ^ 1023) 0 0)
             = [PosInf, PosInf, Finite 0, Finite 0]"
    unfolding wheelSpeedError_eq drive_msg_def
    by (simp only: Drive.simps d dabs.simps) simp
  show ?thesis
    unfolding detectFailedEncoderCandidate_def e
    by (simp add: vectorFromDriveMsg_def drive_msg_def double_0_01_def dless_def)
qed

section \<open>The failure latch\<close>

lemma detectFailedEncoder_cases:
  obtains (absent) "last_received_encoders em = None \<or> last_received_drive em = None"
      "detectFailedEncoder em = (False, em)"
  | (clean) enc drv where "last_received_encoders em = Some enc" "last_received_drive em = Some drv"
      "\<not> fst (detectFailedEncoderCandidate (encoder_speed_error_diff_threshold em) enc drv)"
      "detectFailedEncoder em = (False, em\<lparr>time_of_last_nonsuspect_encoders := stamp enc\<rparr>)"
  | (suspect) enc drv where "last_received_encoders em = Some enc" "last_received_drive em = Some drv"
      "fst (detectFailedEncoderCandidate (encoder_speed_error_diff_threshold em) enc drv)"
      "\<not> stamp enc - time_of_last_nonsuspect_encoders em > encoder_fault_time_to_failure em"
      "detectFailedEncoder em = (False, em)"
  | (failed) enc drv where "last_received_encoders em = Some enc" "last_received_drive em = Some drv"
      "fst (detectFailedEncoderCandidate (encoder_speed_error_diff_threshold em) enc drv)"
      "stamp enc - time_of_last_nonsuspect_encoders em > encoder_fault_time_to_failure em"
      "detectFailedEncoder em =
         (True, em\<lparr>failed_encoder :=
            int (snd (detectFailedEncoderCandidate (encoder_speed_error_diff_threshold em) enc drv))\<rparr>)"
proof (cases "last_received_encoders em")
  case None
  then show ?thesis by (intro absent) (simp_all add: detectFailedEncoder_def)
next
  case enc: (Some enc)
  show ?thesis
  proof (cases "last_received_drive em")
    case None
    then show ?thesis using enc by (intro absent) (simp_all add: detectFailedEncoder_def)
  next
    case drv: (Some drv)
    let ?c = "detectFailedEncoderCandidate (encoder_speed_error_diff_threshold em) enc drv"
    show ?thesis
    proof (cases "fst ?c")
      case False
      then show ?thesis using enc drv
        by (intro clean[of enc drv]) (simp_all add: detectFailedEncoder_def split_beta)
    next
      case True
      show ?thesis
      proof (cases "stamp enc - time_of_last_nonsuspect_encoders em > encoder_fault_time_to_failure em")
        case False
        then show ?thesis using enc drv True
          by (intro suspect[of enc drv]) (simp_all add: detectFailedEncoder_def split_beta)
      next
        case late: True
        then show ?thesis using enc drv True
          by (intro failed[of enc drv]) (simp_all add: detectFailedEncoder_def split_beta)
      qed
    qed
  qed
qed

lemma ok_cases:
  obtains (skip) "snd (ok now em) = em" | (detect) "snd (ok now em) = snd (detectFailedEncoder em)"
proof (cases "snd (ok now em) = em")
  case True then show ?thesis by (rule skip)
next
  case False
  then have "snd (ok now em) = snd (detectFailedEncoder em)"
    by (auto simp: ok_def split_beta split: option.splits if_splits)
  then show ?thesis by (rule detect)
qed





lemmas em_eval =
  encodersCallback_def driveCallback_em_def detectFailedEncoder_def double_eval drive_msg_def
  Duration_ms_def EncodersMonitor_new_def failed_wheel_def ok_def age_def


text \<open>
  Claim C1, evaluated on the code. A failure of wheel 0 is detected and stored; 50 ms later
  a clean encoder message arrives. Feedback and command are both fresh, \<open>failed_encoder_\<close>
  still names wheel 0 before and after the call, and \<open>ok\<close> returns true: it reports the
  verdict of the current sample, not the stored failure.
\<close>

theorem ok_true_after_failure:
  "age (Duration_ms 1050) (drive_msg 1050 1 1 1 1) \<le> encoders_timeout (EncodersMonitor_new None None)
   \<and> age (Duration_ms 1050) (drive_msg 1000 1 1 1 1) \<le> encoders_timeout (EncodersMonitor_new None None)
   \<and> failed_wheel (em_run [EncodersMsg (drive_msg 1000 0 1 1 1), DriveMsg (drive_msg 1000 1 1 1 1),
                           DetectCall, EncodersMsg (drive_msg 1050 1 1 1 1)]
                      (EncodersMonitor_new None None)) = Some 0
   \<and> fst (ok (Duration_ms 1050)
        (em_run [EncodersMsg (drive_msg 1000 0 1 1 1), DriveMsg (drive_msg 1000 1 1 1 1),
                 DetectCall, EncodersMsg (drive_msg 1050 1 1 1 1)]
           (EncodersMonitor_new None None)))
   \<and> failed_wheel (snd (ok (Duration_ms 1050)
        (em_run [EncodersMsg (drive_msg 1000 0 1 1 1), DriveMsg (drive_msg 1000 1 1 1 1),
                 DetectCall, EncodersMsg (drive_msg 1050 1 1 1 1)]
           (EncodersMonitor_new None None)))) = Some 0"
  by (simp add: em_eval)









section \<open>The debounce clock\<close>









section \<open>The watchdog cycle\<close>

lemma moving_detect: "moving G (snd (detectFailedEncoder em)) = moving G em"
  by (cases em rule: detectFailedEncoder_cases) (simp_all add: moving_def)

lemma moving_ok: "moving G (snd (ok now em)) = moving G em"
  by (cases now em rule: ok_cases) (simp_all add: moving_detect)

lemma checkFaults_kept:
  "last_commanded_movement_time (checkFaults G ms) = last_commanded_movement_time ms"
  "last_mcu_status (checkFaults G ms) = last_mcu_status ms"
  "encoders_monitor (checkFaults G ms) = snd (detectFailedEncoder (encoders_monitor ms))"
  by (simp_all add: checkFaults_def setFault_def Let_def split_beta split: option.splits)

lemma checkFaults_state:
  "state (checkFaults G ms) \<noteq> Fault \<Longrightarrow> state (checkFaults G ms) = state ms"
  by (auto simp: checkFaults_def setFault_def Let_def split_beta split: option.splits if_splits)

lemma isEstopped_checkFaults: "isEstopped G (checkFaults G ms) = isEstopped G ms"
  by (simp add: isEstopped_def checkFaults_kept)

lemmas ms_eval =
  ms_ex_def MotionSafety_new_def EncodersMonitor_new_def DriveChangeLimiter_new_def G_ex_def
  status_msg_def drive_msg_def Duration_ms_def checkFaults_def setFault_def isEstopped_def
  detectFailedEncoder_def ok_def age_def moving_def mcuStatusCallback_def

lemmas watchdog_eval =
  watchdogCallback_def watchdog_upto_Moving_def watchdog_Stopped_def watchdog_Starting_def
  watchdog_Moving_def watchdog_PendingStopped_def watchdog_Fault_def

text \<open>
  Claim C9. When a watchdog cycle starts in \<open>PendingStopped\<close> and the fault check of
  that cycle does not enter \<open>Fault\<close>, the cycle ends in \<open>Stopped\<close> exactly when the
  vehicle is not moving according to the encoders, the last non-stationary command is
  more than 1.0 s old, and the estop bit of the last controller status is set; otherwise
  it ends in \<open>PendingStopped\<close>.
\<close>

theorem PendingStopped_exit:
  assumes "state ms = PendingStopped" and "state (checkFaults G ms) \<noteq> Fault"
  shows "state (watchdogCallback G now motor_controllers_ok ms) =
           (if \<not> moving G (encoders_monitor ms)
               \<and> now - last_commanded_movement_time ms > Duration_ms 1000
               \<and> isEstopped G ms
            then Stopped else PendingStopped)"
proof -
  let ?ms0 = "checkFaults G ms"
  let ?ms1 = "?ms0\<lparr>encoders_monitor := snd (ok now (encoders_monitor ?ms0))\<rparr>"
  have s0: "state ?ms0 = PendingStopped"
    using checkFaults_state[OF assms(2)] assms(1) by simp
  have upto: "snd (watchdog_upto_Moving G now motor_controllers_ok ms) = ?ms1"
    using s0
    by (simp add: watchdog_upto_Moving_def Let_def split_beta watchdog_Stopped_def
        watchdog_Starting_def watchdog_Moving_def)
  have mv: "moving G (encoders_monitor ?ms1) = moving G (encoders_monitor ms)"
    by (simp add: moving_ok checkFaults_kept moving_detect)
  have es: "isEstopped G ?ms1 = isEstopped G ms"
    by (simp add: isEstopped_def checkFaults_kept)
  have lc: "last_commanded_movement_time ?ms1 = last_commanded_movement_time ms"
    by (simp add: checkFaults_kept)
  have s1: "state ?ms1 = PendingStopped"
    using s0 by simp
  show ?thesis
    unfolding watchdogCallback_def Let_def split_beta upto
    using mv es lc s1 by (auto simp: watchdog_PendingStopped_def watchdog_Fault_def)
qed

theorem PendingStopped_exit_witness:
  "state (ms_ex PendingStopped) = PendingStopped
   \<and> state (checkFaults G_ex (ms_ex PendingStopped)) \<noteq> Fault
   \<and> state (watchdogCallback G_ex (Duration_ms 11500) True (ms_ex PendingStopped)) = Stopped"
proof -
  have h1: "state (ms_ex PendingStopped) = PendingStopped"
    by (simp add: ms_ex_def)
  have h2: "state (checkFaults G_ex (ms_ex PendingStopped)) \<noteq> Fault"
    by (simp add: ms_eval)
  have g: "\<not> moving G_ex (encoders_monitor (ms_ex PendingStopped))
           \<and> Duration_ms 11500 - last_commanded_movement_time (ms_ex PendingStopped)
               > Duration_ms 1000
           \<and> isEstopped G_ex (ms_ex PendingStopped)"
    by (simp add: ms_eval)
  from PendingStopped_exit [OF h1 h2, of "Duration_ms 11500" True] h1 h2 g
  show ?thesis by simp
qed

text \<open>
  Claim C5, as stated, fails: the cycle starts in \<open>Moving\<close>, the encoders are not ok
  (no feedback yet) and no fault fires, but the last non-stationary command is 2.0 s old,
  the vehicle is not moving and the estop bit is set. The \<open>Moving\<close> block sets
  \<open>PendingStopped\<close>, and the \<open>PendingStopped\<close> block of the same cycle leaves it for
  \<open>Stopped\<close>.
\<close>

theorem Moving_unhealthy_falls_through:
  "state (ms_ex Moving) = Moving
   \<and> state (checkFaults G_ex (ms_ex Moving)) \<noteq> Fault
   \<and> \<not> fst (ok (Duration_ms 12000) (encoders_monitor (checkFaults G_ex (ms_ex Moving))))
   \<and> state (watchdogCallback G_ex (Duration_ms 12000) True (ms_ex Moving)) = Stopped"
  by (simp add: ms_eval watchdog_eval)

text \<open>
  Claim C5, amended. When a watchdog cycle starts in \<open>Moving\<close>, no fault fires, and the
  encoders or the motor controllers are not ok, the cycle ends in \<open>PendingStopped\<close>
  unless the last non-stationary command is more than 3.0 s old (the second test of the
  \<open>Moving\<close> block then sets \<open>Stopped\<close>) or the exit condition of \<open>PendingStopped\<close>
  already holds (not moving, command more than 1.0 s old, estop bit set); in both of
  these cases it ends in \<open>Stopped\<close>.
\<close>

theorem Moving_unhealthy:
  assumes "state ms = Moving" and "state (checkFaults G ms) \<noteq> Fault"
    and "\<not> fst (ok now (encoders_monitor (checkFaults G ms))) \<or> \<not> motor_controllers_ok"
  shows "state (watchdogCallback G now motor_controllers_ok ms) =
           (if now - last_commanded_movement_time ms > Duration_ms 3000 then Stopped
            else if \<not> moving G (encoders_monitor ms)
                    \<and> now - last_commanded_movement_time ms > Duration_ms 1000
                    \<and> isEstopped G ms
            then Stopped else PendingStopped)"
proof -
  let ?ms0 = "checkFaults G ms"
  let ?ms1 = "?ms0\<lparr>encoders_monitor := snd (ok now (encoders_monitor ?ms0))\<rparr>"
  let ?late = "now - last_commanded_movement_time ms > Duration_ms 3000"
  have s0: "state ?ms0 = Moving"
    using checkFaults_state[OF assms(2)] assms(1) by simp
  have lc: "last_commanded_movement_time ?ms0 = last_commanded_movement_time ms"
    by (simp add: checkFaults_kept)
  have upto: "snd (watchdog_upto_Moving G now motor_controllers_ok ms) =
                ?ms1\<lparr>state := (if ?late then Stopped else PendingStopped)\<rparr>"
    using s0 assms(3) lc
    by (auto simp: watchdog_upto_Moving_def Let_def split_beta watchdog_Stopped_def
        watchdog_Starting_def watchdog_Moving_def)
  have mv: "moving G (snd (ok now (encoders_monitor ?ms0))) = moving G (encoders_monitor ms)"
    by (simp add: moving_ok checkFaults_kept moving_detect)
  have es: "isEstopped G ?ms0 = isEstopped G ms"
    by (rule isEstopped_checkFaults)
  show ?thesis
    unfolding watchdogCallback_def Let_def split_beta upto
    using mv es lc by (auto simp: watchdog_PendingStopped_def watchdog_Fault_def isEstopped_def)
qed

theorem Moving_unhealthy_witness:
  "state (ms_ex Moving) = Moving
   \<and> state (checkFaults G_ex (ms_ex Moving)) \<noteq> Fault
   \<and> \<not> fst (ok (Duration_ms 10500) (encoders_monitor (checkFaults G_ex (ms_ex Moving))))
   \<and> state (watchdogCallback G_ex (Duration_ms 10500) True (ms_ex Moving)) = PendingStopped"
proof -
  have h1: "state (ms_ex Moving) = Moving"
    by (simp add: ms_ex_def)
  have h2: "state (checkFaults G_ex (ms_ex Moving)) \<noteq> Fault"
    by (simp add: ms_eval)
  have h3: "\<not> fst (ok (Duration_ms 10500) (encoders_monitor (checkFaults G_ex (ms_ex Moving))))"
    by (simp add: ms_eval)
  then have h3': "\<not> fst (ok (Duration_ms 10500) (encoders_monitor (checkFaults G_ex (ms_ex Moving))))
                  \<or> \<not> True" ..
  have g: "\<not> Duration_ms 10500 - last_commanded_movement_time (ms_ex Moving) > Duration_ms 3000
           \<and> \<not> Duration_ms 10500 - last_commanded_movement_time (ms_ex Moving) > Duration_ms 1000"
    by (simp add: ms_eval)
  from Moving_unhealthy [OF h1 h2 h3'] h1 h2 h3 g
  show ?thesis by simp
qed

text \<open>
  Claim C4, as stated, fails: in the cycle that leaves \<open>PendingStopped\<close> for \<open>Stopped\<close>
  the published estop is true although the state at the end of the cycle is \<open>Stopped\<close>.
\<close>

theorem estop_true_on_exit_to_Stopped:
  "state (watchdogCallback G_ex (Duration_ms 12000) True (ms_ex PendingStopped)) = Stopped
   \<and> last (pub_estop (watchdogCallback G_ex (Duration_ms 12000) True (ms_ex PendingStopped)))
       = True"
  by (simp add: ms_eval watchdog_eval)

text \<open>
  Claim C4, amended. The estop flag is decided from the state as the \<open>PendingStopped\<close>
  block finds it, before the exit from \<open>PendingStopped\<close> is evaluated: the estop
  published at the end of a cycle is true if and only if the state at the end of the
  cycle is \<open>PendingStopped\<close> or \<open>Fault\<close>, or the cycle has just left \<open>PendingStopped\<close>
  for \<open>Stopped\<close>.
\<close>

theorem estop_published:
  "last (pub_estop (watchdogCallback G now motor_controllers_ok ms)) \<longleftrightarrow>
     state (watchdogCallback G now motor_controllers_ok ms) = PendingStopped
     \<or> state (watchdogCallback G now motor_controllers_ok ms) = Fault
     \<or> (state (snd (watchdog_upto_Moving G now motor_controllers_ok ms)) = PendingStopped
        \<and> state (watchdogCallback G now motor_controllers_ok ms) = Stopped)"
proof -
  obtain ambience ms4 where u: "watchdog_upto_Moving G now motor_controllers_ok ms = (ambience, ms4)"
    by (cases "watchdog_upto_Moving G now motor_controllers_ok ms")
  show ?thesis
    unfolding watchdogCallback_def Let_def u
    by (cases "state ms4") (simp_all add: watchdog_PendingStopped_def watchdog_Fault_def)
qed

theorem estop_published_witness:
  "state (watchdogCallback G_ex (Duration_ms 10500) True (ms_ex Fault)) = Fault
   \<and> last (pub_estop (watchdogCallback G_ex (Duration_ms 10500) True (ms_ex Fault)))"
proof -
  have st: "state (watchdogCallback G_ex (Duration_ms 10500) True (ms_ex Fault)) = Fault"
    by (simp add: ms_eval watchdog_eval)
  with estop_published [of G_ex "Duration_ms 10500" True "ms_ex Fault"]
  show ?thesis by simp
qed

section \<open>The precharge fault\<close>

text \<open>
  Claim C10, as stated, fails in the reason: the first controller status a new node
  receives has the precharge bit set and is stamped 5.0 s, and the encoders monitor holds
  a candidate sample stamped 5.0 s. The fault check calls \<open>setFault\<close> for the precharge
  and then for the encoder failure (the debounce clock is at time zero too), and the node
  is left in \<open>Fault\<close> with the reason of the encoder failure.
\<close>

theorem precharge_reason_replaced:
  "last_non_precharge_time ms_candidate_ex = 0
   \<and> last_mcu_status ms_candidate_ex = None
   \<and> error (status_msg 5000 1) AND ERROR_BRK_DET G_ex \<noteq> 0
   \<and> stamp (status_msg 5000 1) > Duration_ms 4000
   \<and> state (checkFaults G_ex (mcuStatusCallback (status_msg 5000 1) ms_candidate_ex)) = Fault
   \<and> fault_reason (checkFaults G_ex (mcuStatusCallback (status_msg 5000 1) ms_candidate_ex))
       = ''Encoder failure detected.''"
  by (simp add: ms_candidate_ex_def ms_eval em_eval)

text \<open>
  Claim C10, amended. \<open>last_non_precharge_time_\<close> is time zero from construction and the
  fault check moves it only on a status whose precharge bit is clear. So when it is still
  zero and a status arrives with the precharge bit set and a stamp of more than 4.0 s, the
  next fault check enters \<open>Fault\<close> at once and leaves the time at zero. The reason it
  leaves is the precharge one when the encoder check of the same call does not report a
  failure; when it does, its \<open>setFault\<close> comes second and the reason is that of the
  encoder failure.
\<close>

theorem precharge_fault_from_time_zero:
  assumes "last_non_precharge_time ms = 0"
    and "error status AND ERROR_BRK_DET G \<noteq> 0"
    and "stamp status > Duration_ms 4000"
  shows "state (checkFaults G (mcuStatusCallback status ms)) = Fault
       \<and> fault_reason (checkFaults G (mcuStatusCallback status ms)) =
           (if fst (detectFailedEncoder (encoders_monitor ms))
            then ''Encoder failure detected.''
            else ''Precharge persisted for more than four seconds.'')
       \<and> last_non_precharge_time (checkFaults G (mcuStatusCallback status ms)) = 0"
  using assms
  by (simp add: checkFaults_def mcuStatusCallback_def setFault_def Let_def split_beta)

theorem precharge_fault_from_time_zero_witness:
  "last_non_precharge_time (MotionSafety_new 1 (1/4) 1 None None) = 0
   \<and> error (status_msg 5000 1) AND ERROR_BRK_DET G_ex \<noteq> 0
   \<and> stamp (status_msg 5000 1) > Duration_ms 4000
   \<and> state (checkFaults G_ex (mcuStatusCallback (status_msg 5000 1)
                (MotionSafety_new 1 (1/4) 1 None None))) = Fault
   \<and> fault_reason (checkFaults G_ex (mcuStatusCallback (status_msg 5000 1)
                (MotionSafety_new 1 (1/4) 1 None None)))
       = ''Precharge persisted for more than four seconds.''"
proof -
  have h1: "last_non_precharge_time (MotionSafety_new 1 (1/4) 1 None None) = 0"
    by (simp add: MotionSafety_new_def)
  have h2: "error (status_msg 5000 1) AND ERROR_BRK_DET G_ex \<noteq> 0"
    by (simp add: status_msg_def G_ex_def)
  have h3: "stamp (status_msg 5000 1) > Duration_ms 4000"
    by (simp add: status_msg_def Duration_ms_def)
  have d: "\<not> fst (detectFailedEncoder (encoders_monitor (MotionSafety_new 1 (1/4) 1 None None)))"
    by (simp add: ms_eval)
  from precharge_fault_from_time_zero [OF h1 h2 h3] h1 h2 h3 d
  show ?thesis by simp
qed

section \<open>The drive pass-through and the rate limiter\<close>


lemma apply_limiter_field_ptr:
  "field_ptr (snd (apply_limiter limiter msg_in msg_out)) = field_ptr limiter"
  by (simp add: apply_limiter_def RateLimiter_apply_def Let_def split_beta split: option.splits)

lemma apply_limiters_field_ptr:
  "map field_ptr (snd (apply_limiters lims msg_in msg_out)) = map field_ptr lims"
  by (induction lims arbitrary: msg_out) (simp_all add: split_beta apply_limiter_field_ptr)

lemma driveCallback_field_ptr:
  "map field_ptr (accel_limiters (driveCallback G drive_commanded ms))
     = map field_ptr (accel_limiters ms)"
  by (simp add: driveCallback_def Let_def split_beta apply_limiters_field_ptr)










end
